theory Spec2Isabelle
  imports Complex_Main
begin

section \<open>Values: Python floats and strings\<close>

text \<open>
  The program (\<^verbatim>\<open>src/app.py\<close>) is a pandas pipeline: \<^verbatim>\<open>process_files\<close> merges a
  boundary table with two attribute tables, derives four float columns with
  \<^verbatim>\<open>.str.replace(...).astype(float).fillna(0)\<close>, classifies each with a chained
  conditional expression, and \<^verbatim>\<open>create_map\<close> builds one map layer per theme.

  A Python float is an IEEE binary64 number.  A finite one is modelled by the real number
  it denotes, the two zeros being identified (the program only compares its floats);
  \<open>binary64\<close> below rounds a real to the nearest such number, which is what
  \<^verbatim>\<open>float(s)\<close> and a float literal do.  Strings are lists of 8-bit characters (the
  Latin-1 code points, which is what \<^verbatim>\<open>encoding='latin1'\<close> yields).
\<close>

datatype pyfloat = Fin real | PInf | NInf | NaN

text \<open>The errors the pipeline can raise.  Each carries the message's subject.\<close>

datatype error =
    KeyError string
  | ValueError string
  | AttributeError string
  | MergeError string
  | TypeError string

type_synonym 'a result = "error + 'a"

definition bindE :: "'a result \<Rightarrow> ('a \<Rightarrow> 'b result) \<Rightarrow> 'b result" where
  "bindE m f = (case m of Inl e \<Rightarrow> Inl e | Inr x \<Rightarrow> f x)"

subsection \<open>Rounding to binary64\<close>

text \<open>
  The binary exponent of a positive real: \<open>bexp a = e\<close> when \<open>2 ^ e \<le> a < 2 ^ (e + 1)\<close>.
\<close>

function bexp :: "real \<Rightarrow> int" where
  "bexp a = (if a \<le> 0 then 0
             else if 2 \<le> a then bexp (a / 2) + 1
             else if a < 1 then bexp (a * 2) - 1
             else 0)"
  by pat_completeness auto
termination
proof (relation "measure (\<lambda>a. if 1 \<le> a then nat \<lfloor>a\<rfloor> else nat \<lfloor>1 / a\<rfloor> + 2)")
  have half: "\<lfloor>b / 2\<rfloor> < \<lfloor>b\<rfloor>" and pos: "0 < \<lfloor>b\<rfloor>" if "2 \<le> b" for b :: real
    using that by linarith+
  show "wf (measure (\<lambda>a::real. if 1 \<le> a then nat \<lfloor>a\<rfloor> else nat \<lfloor>1 / a\<rfloor> + 2))"
    by simp
  show "(a / 2, a) \<in> measure (\<lambda>a. if 1 \<le> a then nat \<lfloor>a\<rfloor> else nat \<lfloor>1 / a\<rfloor> + 2)"
    if "\<not> a \<le> 0" and a: "2 \<le> a" for a :: real
  proof -
    note half [OF a]
    moreover note pos [OF a]
    ultimately show ?thesis using a by simp
  qed
  show "(a * 2, a) \<in> measure (\<lambda>a. if 1 \<le> a then nat \<lfloor>a\<rfloor> else nat \<lfloor>1 / a\<rfloor> + 2)"
    if p: "\<not> a \<le> 0" and "\<not> 2 \<le> a" and a: "a < 1" for a :: real
  proof (cases "1 \<le> a * 2")
    case True
    have "\<lfloor>a * 2\<rfloor> \<le> 1" using a by linarith
    then have "nat \<lfloor>a * 2\<rfloor> < nat \<lfloor>1 / a\<rfloor> + 2" by linarith
    with True a show ?thesis by simp
  next
    case False
    then have b: "2 \<le> 1 / a" using p by (simp add: field_simps)
    have "1 / (a * 2) = (1 / a) / 2" by simp
    moreover note half [OF b]
    moreover note pos [OF b]
    ultimately show ?thesis using False a by simp
  qed
qed

declare bexp.simps [simp del]

definition scale2 :: "real \<Rightarrow> int \<Rightarrow> real" where
  "scale2 m e = (if 0 \<le> e then m * 2 ^ nat e else m / 2 ^ nat (- e))"

text \<open>Rounding to the nearest integer, a tie going to the even one.\<close>

definition round_half_even :: "real \<Rightarrow> int" where
  "round_half_even q =
     (let n = \<lfloor>q\<rfloor>; f = q - of_int n
      in if f < 1 / 2 then n else if 1 / 2 < f then n + 1
         else if even n then n else n + 1)"

text \<open>
  The binary64 number nearest to a real: 53 significant bits are kept, so the spacing at
  binary exponent \<open>e\<close> is \<open>2 ^ (e - 52)\<close>; below \<open>2 ^ - 1022\<close> the spacing stays that of
  the exponent \<open>- 1022\<close> (subnormal numbers, which round down to zero in the end); a real
  that rounds to \<open>2 ^ 1024\<close> or more overflows to an infinity.
\<close>

definition binary64 :: "real \<Rightarrow> pyfloat" where
  "binary64 r =
     (if r = 0 then Fin 0
      else if 2 ^ 1024 \<le> \<bar>r\<bar> then (if r < 0 then NInf else PInf)
      else let e = (if \<bar>r\<bar> < 1 / 2 ^ 1022 then - 1022 else bexp \<bar>r\<bar>);
               n = round_half_even (scale2 \<bar>r\<bar> (52 - e));
               v = scale2 (of_int n) (e - 52)
           in if 2 ^ 1024 \<le> v then (if r < 0 then NInf else PInf)
              else Fin (if r < 0 then - v else v))"

subsection \<open>Comparison of floats\<close>

text \<open>\<^verbatim>\<open>x < y\<close> and \<^verbatim>\<open>x <= y\<close> on floats: every comparison with NaN is false.\<close>

fun lt_float :: "pyfloat \<Rightarrow> pyfloat \<Rightarrow> bool" where
  "lt_float (Fin a) (Fin b) = (a < b)"
| "lt_float (Fin a) PInf = True"
| "lt_float NInf (Fin b) = True"
| "lt_float NInf PInf = True"
| "lt_float x y = False"

fun le_float :: "pyfloat \<Rightarrow> pyfloat \<Rightarrow> bool" where
  "le_float (Fin a) (Fin b) = (a \<le> b)"
| "le_float (Fin a) PInf = True"
| "le_float NInf (Fin b) = True"
| "le_float NInf PInf = True"
| "le_float NInf NInf = True"
| "le_float PInf PInf = True"
| "le_float x y = False"

text \<open>\<^verbatim>\<open>x > c\<close> and \<^verbatim>\<open>x <= c\<close> for a float \<open>x\<close> and a numeric literal \<open>c\<close> of the
  program.  A float literal such as \<^verbatim>\<open>54.1\<close> denotes the binary64 number nearest to it; an
  integer literal such as \<^verbatim>\<open>60\<close> is compared by its exact value, which is a binary64
  number itself.\<close>

definition gt :: "pyfloat \<Rightarrow> real \<Rightarrow> bool" where
  "gt x c = lt_float (binary64 c) x"

definition le :: "pyfloat \<Rightarrow> real \<Rightarrow> bool" where
  "le x c = le_float x (binary64 c)"

subsection \<open>\<^verbatim>\<open>str.replace\<close>\<close>

text \<open>\<^verbatim>\<open>s.replace(old, new)\<close> for a non-empty \<open>old\<close>: every non-overlapping occurrence,
  scanning from the left.  The program only calls it with the one-character patterns
  \<^verbatim>\<open>'%'\<close>, \<^verbatim>\<open>','\<close> and \<^verbatim>\<open>' '\<close>; for the pattern \<^verbatim>\<open>','\<close> the regular-expression
  replacement (\<^verbatim>\<open>regex=True\<close>) is the literal one, the comma not being a metacharacter.\<close>

function replace :: "string \<Rightarrow> string \<Rightarrow> string \<Rightarrow> string" where
  "replace old new [] = []"
| "replace old new (c # cs) =
     (if old \<noteq> [] \<and> take (length old) (c # cs) = old
      then new @ replace old new (drop (length old) (c # cs))
      else c # replace old new cs)"
  by pat_completeness auto
termination
  by (relation "measure (\<lambda>(old, new, s). length s)") auto

subsection \<open>\<^verbatim>\<open>float(s)\<close> on a string\<close>

text \<open>
  \<^verbatim>\<open>astype(float)\<close> on an object column calls Python's \<^verbatim>\<open>float\<close> on every string.
  Its grammar: underscores are allowed between digits only and are removed; leading and
  trailing whitespace is stripped (of the 8-bit characters: tab to carriage return, the
  space, U+0085 and U+00A0); then an optional sign followed by \<^verbatim>\<open>inf\<close>,
  \<^verbatim>\<open>infinity\<close> or \<^verbatim>\<open>nan\<close> (any case), or a decimal number with an optional
  fraction and an optional exponent, which is rounded to binary64.  Anything else raises
  ValueError, modelled as None.
\<close>

definition is_digit :: "char \<Rightarrow> bool" where
  "is_digit c = (48 \<le> (of_char c :: nat) \<and> (of_char c :: nat) \<le> 57)"

definition is_space :: "char \<Rightarrow> bool" where
  "is_space c = (let n = (of_char c :: nat) in
     (9 \<le> n \<and> n \<le> 13) \<or> n = 32 \<or> n = 133 \<or> n = 160)"

definition to_lower :: "char \<Rightarrow> char" where
  "to_lower c = (let n = (of_char c :: nat) in
     if 65 \<le> n \<and> n \<le> 90 then char_of (n + 32) else c)"

text \<open>Underscores: allowed only after a digit and before a digit; \<open>prev\<close> is the
  previous character, if any.\<close>

fun remove_underscores :: "char option \<Rightarrow> string \<Rightarrow> string option" where
  "remove_underscores prev [] =
     (if prev = Some CHR ''_'' then None else Some [])"
| "remove_underscores prev (c # cs) =
     (if c = CHR ''_'' then
        (case prev of
           None \<Rightarrow> None
         | Some p \<Rightarrow> if is_digit p then remove_underscores (Some c) cs else None)
      else if prev = Some CHR ''_'' \<and> \<not> is_digit c then None
      else map_option ((#) c) (remove_underscores (Some c) cs))"

definition strip :: "string \<Rightarrow> string" where
  "strip s = rev (dropWhile is_space (rev (dropWhile is_space s)))"

definition nat_of_digits :: "string \<Rightarrow> nat" where
  "nat_of_digits ds = foldl (\<lambda>a c. 10 * a + ((of_char c :: nat) - 48)) 0 ds"

text \<open>An optional sign: the sign (True for minus) and the rest.\<close>

fun split_sign :: "string \<Rightarrow> bool \<times> string" where
  "split_sign [] = (False, [])"
| "split_sign (c # cs) =
     (if c = CHR ''-'' then (True, cs)
      else if c = CHR ''+'' then (False, cs)
      else (False, c # cs))"

definition scale10 :: "real \<Rightarrow> int \<Rightarrow> real" where
  "scale10 m e = (if 0 \<le> e then m * 10 ^ nat e else m / 10 ^ nat (- e))"

text \<open>The exponent part: empty, or \<^verbatim>\<open>e\<close>/\<^verbatim>\<open>E\<close>, an optional sign and at least one digit,
  up to the end of the string.\<close>

definition parse_exponent :: "string \<Rightarrow> int option" where
  "parse_exponent s =
     (case s of
        [] \<Rightarrow> Some 0
      | c # cs \<Rightarrow>
          if to_lower c = CHR ''e'' then
            (let (neg, r) = split_sign cs in
             if r \<noteq> [] \<and> list_all is_digit r
             then Some (if neg then - int (nat_of_digits r) else int (nat_of_digits r))
             else None)
          else None)"

definition parse_decimal :: "string \<Rightarrow> real option" where
  "parse_decimal s =
     (let ip = takeWhile is_digit s;
          r1 = dropWhile is_digit s;
          fp = (case r1 of [] \<Rightarrow> [] | c # cs \<Rightarrow>
                  if c = CHR ''.'' then takeWhile is_digit cs else []);
          r2 = (case r1 of [] \<Rightarrow> [] | c # cs \<Rightarrow>
                  if c = CHR ''.'' then dropWhile is_digit cs else r1)
      in if ip = [] \<and> fp = [] then None
         else (case parse_exponent r2 of
                 None \<Rightarrow> None
               | Some e \<Rightarrow>
                   Some (scale10 (real (nat_of_digits (ip @ fp))) (e - int (length fp)))))"

definition float_of_string :: "string \<Rightarrow> pyfloat option" where
  "float_of_string s =
     (case remove_underscores None s of
        None \<Rightarrow> None
      | Some t \<Rightarrow>
          (let (neg, r) = split_sign (strip t);
               w = map to_lower r
           in if w = ''inf'' \<or> w = ''infinity'' then Some (if neg then NInf else PInf)
              else if w = ''nan'' then Some NaN
              else (case parse_decimal r of
                      None \<Rightarrow> None
                    | Some v \<Rightarrow> Some (binary64 (if neg then - v else v)))))"

section \<open>Tables\<close>

text \<open>
  A pandas column is either an object column, whose cells are strings or null
  (\<^verbatim>\<open>NaN\<close>/\<^verbatim>\<open>None\<close>, here \<open>None\<close>), or a numeric column (\<^verbatim>\<open>int64\<close> and
  \<^verbatim>\<open>float64\<close> are both read as floats; its cells may be any reals, the binary64
  numbers among them).  A frame is its row count and its named
  columns in order; the geometry column of the boundary table is one more object column.
\<close>

datatype column = ObjCol "string option list" | NumCol "pyfloat list"

record frame =
  nrows :: nat
  cols :: "(string \<times> column) list"

fun col_len :: "column \<Rightarrow> nat" where
  "col_len (ObjCol xs) = length xs"
| "col_len (NumCol xs) = length xs"

definition names :: "frame \<Rightarrow> string list" where
  "names f = map fst (cols f)"

text \<open>A frame as the loaders produce it: distinct column names, every column as long
  as the index.\<close>

definition rectangular :: "frame \<Rightarrow> bool" where
  "rectangular f = list_all (\<lambda>(n, c). col_len c = nrows f) (cols f)"

definition wf_frame :: "frame \<Rightarrow> bool" where
  "wf_frame f = (distinct (names f) \<and> rectangular f)"

text \<open>\<^verbatim>\<open>df[name]\<close>: KeyError when no column has the name.  When several columns share
  the name pandas returns a sub-frame, on which each operation the program applies next
  raises; that is folded into one ValueError here.\<close>

definition getitem :: "frame \<Rightarrow> string \<Rightarrow> column result" where
  "getitem f n =
     (case filter (\<lambda>(m, c). m = n) (cols f) of
        [] \<Rightarrow> Inl (KeyError n)
      | [(m, c)] \<Rightarrow> Inr c
      | _ \<Rightarrow> Inl (ValueError n))"

text \<open>\<^verbatim>\<open>df[name] = column\<close>: overwrites the columns of that name in place, or appends
  a new last column.\<close>

definition setitem :: "frame \<Rightarrow> string \<Rightarrow> column \<Rightarrow> frame" where
  "setitem f n c =
     (if n \<in> set (names f)
      then f\<lparr>cols := map (\<lambda>(m, d). if m = n then (m, c) else (m, d)) (cols f)\<rparr>
      else f\<lparr>cols := cols f @ [(n, c)]\<rparr>)"

subsection \<open>\<^verbatim>\<open>merge(..., how='left')\<close>\<close>

text \<open>Join keys: a string, a number, or null.  pandas matches null keys with each other.\<close>

datatype key = Str string | Num pyfloat | Null

fun keys_of :: "column \<Rightarrow> key list" where
  "keys_of (ObjCol xs) = map (\<lambda>x. case x of None \<Rightarrow> Null | Some s \<Rightarrow> Str s) xs"
| "keys_of (NumCol xs) = map (\<lambda>x. if x = NaN then Null else Num x) xs"

fun is_obj :: "column \<Rightarrow> bool" where
  "is_obj (ObjCol xs) = True"
| "is_obj (NumCol xs) = False"

text \<open>The positions of the right rows whose key equals \<open>k\<close>, in the right table's order.\<close>

definition positions :: "key \<Rightarrow> key list \<Rightarrow> nat list" where
  "positions k rk = filter (\<lambda>j. rk ! j = k) [0..<length rk]"

text \<open>The row indexers of a left join: left order is kept; a left row with no match is
  kept once with no right row; a left row with several matches appears once per match.\<close>

definition left_indexers :: "key list \<Rightarrow> key list \<Rightarrow> (nat \<times> nat option) list" where
  "left_indexers lk rk =
     concat (map (\<lambda>i. case positions (lk ! i) rk of
                          [] \<Rightarrow> [(i, None)]
                        | js \<Rightarrow> map (\<lambda>j. (i, Some j)) js)
                 [0..<length lk])"

fun take_left :: "(nat \<times> nat option) list \<Rightarrow> column \<Rightarrow> column" where
  "take_left ix (ObjCol xs) = ObjCol (map (\<lambda>(i, j). xs ! i) ix)"
| "take_left ix (NumCol xs) = NumCol (map (\<lambda>(i, j). xs ! i) ix)"

fun take_right :: "(nat \<times> nat option) list \<Rightarrow> column \<Rightarrow> column" where
  "take_right ix (ObjCol xs) =
     ObjCol (map (\<lambda>(i, j). case j of None \<Rightarrow> None | Some j' \<Rightarrow> xs ! j') ix)"
| "take_right ix (NumCol xs) =
     NumCol (map (\<lambda>(i, j). case j of None \<Rightarrow> NaN | Some j' \<Rightarrow> xs ! j') ix)"

text \<open>Column names present on both sides get the suffixes \<^verbatim>\<open>_x\<close> and \<^verbatim>\<open>_y\<close>; a
  suffix that creates a new duplicate within one side is a MergeError.\<close>

definition rename :: "string list \<Rightarrow> string \<Rightarrow> string \<Rightarrow> string" where
  "rename overlap suffix n = (if n \<in> set overlap then n @ suffix else n)"

definition new_dups :: "string list \<Rightarrow> string list \<Rightarrow> string list" where
  "new_dups old new =
     map (\<lambda>i. new ! i)
       (filter (\<lambda>i. new ! i \<in> set (take i new) \<and> old ! i \<notin> set (take i old))
               [0..<length new])"

text \<open>
  \<^verbatim>\<open>left.merge(right, left_on=lo, right_on=ro, how='left')\<close>.  The right key is looked
  up first.  pandas refuses to merge a string key with a numeric key unless one side has
  no rows.
\<close>

definition merge_left :: "frame \<Rightarrow> frame \<Rightarrow> string \<Rightarrow> string \<Rightarrow> frame result" where
  "merge_left left right lo ro =
     bindE (getitem right ro) (\<lambda>rc.
     bindE (getitem left lo) (\<lambda>lc.
       if is_obj lc \<noteq> is_obj rc \<and> col_len lc \<noteq> 0 \<and> col_len rc \<noteq> 0
       then Inl (ValueError lo)
       else
         let overlap = filter (\<lambda>n. n \<in> set (names right)) (names left);
             ln = map (rename overlap ''_x'') (names left);
             rn = map (rename overlap ''_y'') (names right)
         in if new_dups (names left) ln @ new_dups (names right) rn \<noteq> []
            then Inl (MergeError (hd (new_dups (names left) ln @ new_dups (names right) rn)))
            else
              let ix = left_indexers (keys_of lc) (keys_of rc)
              in Inr \<lparr> nrows = length ix,
                       cols = zip ln (map (take_left ix \<circ> snd) (cols left))
                            @ zip rn (map (take_right ix \<circ> snd) (cols right)) \<rparr>))"

section \<open>The indicator columns\<close>

text \<open>The \<^verbatim>\<open>.str\<close> accessor: only on an object column.\<close>

fun str_accessor :: "column \<Rightarrow> string option list result" where
  "str_accessor (ObjCol xs) = Inr xs"
| "str_accessor (NumCol xs) =
     Inl (AttributeError ''Can only use .str accessor with string values!'')"

text \<open>\<^verbatim>\<open>.str.replace(old, new)\<close>: null cells stay null.\<close>

definition str_replace :: "string \<Rightarrow> string \<Rightarrow> string option list \<Rightarrow> string option list" where
  "str_replace old new xs = map (map_option (replace old new)) xs"

text \<open>\<^verbatim>\<open>.astype(float)\<close>: a numeric column is unchanged; in an object column null
  becomes NaN and a string is parsed, the first string that does not parse raising
  ValueError for the whole column.\<close>

fun astype_float_cells :: "string option list \<Rightarrow> pyfloat list result" where
  "astype_float_cells [] = Inr []"
| "astype_float_cells (None # xs) =
     bindE (astype_float_cells xs) (\<lambda>vs. Inr (NaN # vs))"
| "astype_float_cells (Some s # xs) =
     (case float_of_string s of
        None \<Rightarrow> Inl (ValueError s)
      | Some v \<Rightarrow> bindE (astype_float_cells xs) (\<lambda>vs. Inr (v # vs)))"

fun astype_float :: "column \<Rightarrow> pyfloat list result" where
  "astype_float (NumCol xs) = Inr xs"
| "astype_float (ObjCol xs) = astype_float_cells xs"

text \<open>\<^verbatim>\<open>.fillna(0)\<close>.\<close>

definition fillna :: "real \<Rightarrow> pyfloat list \<Rightarrow> pyfloat list" where
  "fillna d xs = map (\<lambda>x. if x = NaN then Fin d else x) xs"


section \<open>The classifiers\<close>

text \<open>The four chained conditional expressions of \<^verbatim>\<open>process_files\<close>, in the source's
  order: three descend with \<^verbatim>\<open>>\<close>, the last ascends with \<^verbatim>\<open><=\<close>.\<close>

definition urban_planning_recommendation :: "pyfloat \<Rightarrow> string" where
  "urban_planning_recommendation x =
     (if gt x 60 then ''Focus on sustainable urbanization in high urban density areas''
      else if gt x 54.1 then ''Enhance infrastructure resilience and promote mixed-use development''
      else if gt x 48.2 then ''Encourage eco-friendly transportation and smart city initiatives''
      else if gt x 42.3 then ''Strengthen public transport systems and pedestrian-friendly spaces''
      else if gt x 36.4 then ''Promote green building practices and energy-efficient policies''
      else if gt x 30.5 then ''Support community-driven urban projects and housing affordability''
      else if gt x 24.6 then ''Develop sustainable industrial zones and manage urban sprawl''
      else if gt x 18.7 then ''Improve basic infrastructure and access to essential services''
      else if gt x 11 then ''Encourage planned urban growth and reduce informal settlements''
      else ''Promote urban development in underdeveloped areas'')"

definition infrastructure_development_recommendation :: "pyfloat \<Rightarrow> string" where
  "infrastructure_development_recommendation x =
     (if gt x 10000 then ''Expand infrastructure projects significantly in states with highly extensive agricultural land''
      else if gt x 8000 then ''Encourage large-scale infrastructure expansion to support agriculture and rural growth''
      else if gt x 6000 then ''Promote balanced infrastructure development to complement agricultural production''
      else if gt x 4000 then ''Focus on enhancing infrastructure to support medium-scale agricultural activities''
      else if gt x 2000 then ''Optimize infrastructure for better utilization in moderately agricultural areas''
      else ''Prioritize infrastructure development in regions with limited agricultural land'')"

definition environmental_conservation_recommendation :: "pyfloat \<Rightarrow> string" where
  "environmental_conservation_recommendation x =
     (if gt x 5000 then ''Implement extensive reforestation and conservation programs to preserve ecosystems''
      else if gt x 4500 then ''Focus on large-scale afforestation and forest preservation projects''
      else if gt x 4000 then ''Strengthen community-driven conservation efforts and reforestation plans''
      else if gt x 3500 then ''Enhance forest management practices and sustainable land use strategies''
      else if gt x 3000 then ''Increase funding for conservation programs and biodiversity initiatives''
      else if gt x 2500 then ''Promote sustainable forestry and eco-friendly policies in high-impact areas''
      else if gt x 2000 then ''Support moderate-scale afforestation projects and community participation''
      else if gt x 1500 then ''Focus on targeted afforestation efforts in underutilized regions''
      else if gt x 1000 then ''Encourage community involvement and local conservation initiatives''
      else if gt x 500 then ''Promote small-scale afforestation and awareness programs''
      else ''Initiate basic conservation and afforestation efforts in critical regions'')"

definition socio_economics_analysis_recommendation :: "pyfloat \<Rightarrow> string" where
  "socio_economics_analysis_recommendation x =
     (if le x 60 then ''Focus on rural development and connectivity in sparsely populated areas''
      else if le x 120 then ''Support sparsely populated regions with roadways and basic facilities''
      else if le x 180 then ''Enhance rural infrastructure and agricultural support''
      else if le x 240 then ''Improve access to education and healthcare in moderately populated areas''
      else if le x 300 then ''Invest in medium-density regions with industrial hubs''
      else if le x 360 then ''Promote urbanization in emerging towns and cities''
      else if le x 420 then ''Develop infrastructure and job opportunities in densely populated regions''
      else if le x 480 then ''Implement smart city projects for high-density urban areas''
      else if le x 540 then ''Enhance public transportation and housing in urban centers''
      else if le x 600 then ''Expand utilities and green spaces in highly urbanized areas''
      else if le x 660 then ''Focus on reducing congestion and pollution in urban hotspots''
      else if le x 720 then ''Prioritize high-density urban centers with smart city initiatives''
      else if le x 780 then ''Develop advanced infrastructure for mega-cities and metropolitan regions''
      else ''Address overpopulation challenges with sustainable city planning'')"

text \<open>The labels of each chain, in the order of its branches.\<close>

definition urban_planning_labels :: "string list" where
  "urban_planning_labels =
     [''Focus on sustainable urbanization in high urban density areas'',
      ''Enhance infrastructure resilience and promote mixed-use development'',
      ''Encourage eco-friendly transportation and smart city initiatives'',
      ''Strengthen public transport systems and pedestrian-friendly spaces'',
      ''Promote green building practices and energy-efficient policies'',
      ''Support community-driven urban projects and housing affordability'',
      ''Develop sustainable industrial zones and manage urban sprawl'',
      ''Improve basic infrastructure and access to essential services'',
      ''Encourage planned urban growth and reduce informal settlements'',
      ''Promote urban development in underdeveloped areas'']"

definition infrastructure_development_labels :: "string list" where
  "infrastructure_development_labels =
     [''Expand infrastructure projects significantly in states with highly extensive agricultural land'',
      ''Encourage large-scale infrastructure expansion to support agriculture and rural growth'',
      ''Promote balanced infrastructure development to complement agricultural production'',
      ''Focus on enhancing infrastructure to support medium-scale agricultural activities'',
      ''Optimize infrastructure for better utilization in moderately agricultural areas'',
      ''Prioritize infrastructure development in regions with limited agricultural land'']"

definition environmental_conservation_labels :: "string list" where
  "environmental_conservation_labels =
     [''Implement extensive reforestation and conservation programs to preserve ecosystems'',
      ''Focus on large-scale afforestation and forest preservation projects'',
      ''Strengthen community-driven conservation efforts and reforestation plans'',
      ''Enhance forest management practices and sustainable land use strategies'',
      ''Increase funding for conservation programs and biodiversity initiatives'',
      ''Promote sustainable forestry and eco-friendly policies in high-impact areas'',
      ''Support moderate-scale afforestation projects and community participation'',
      ''Focus on targeted afforestation efforts in underutilized regions'',
      ''Encourage community involvement and local conservation initiatives'',
      ''Promote small-scale afforestation and awareness programs'',
      ''Initiate basic conservation and afforestation efforts in critical regions'']"

definition socio_economics_analysis_labels :: "string list" where
  "socio_economics_analysis_labels =
     [''Focus on rural development and connectivity in sparsely populated areas'',
      ''Support sparsely populated regions with roadways and basic facilities'',
      ''Enhance rural infrastructure and agricultural support'',
      ''Improve access to education and healthcare in moderately populated areas'',
      ''Invest in medium-density regions with industrial hubs'',
      ''Promote urbanization in emerging towns and cities'',
      ''Develop infrastructure and job opportunities in densely populated regions'',
      ''Implement smart city projects for high-density urban areas'',
      ''Enhance public transportation and housing in urban centers'',
      ''Expand utilities and green spaces in highly urbanized areas'',
      ''Focus on reducing congestion and pollution in urban hotspots'',
      ''Prioritize high-density urban centers with smart city initiatives'',
      ''Develop advanced infrastructure for mega-cities and metropolitan regions'',
      ''Address overpopulation challenges with sustainable city planning'']"

text \<open>The tests of each chain as an ordered rule table, the final \<^verbatim>\<open>else\<close> being the
  label after the last rule; \<open>first_match\<close> is the position of the first rule that holds
  (the number of rules when none does).\<close>

definition first_match :: "('a \<Rightarrow> bool) list \<Rightarrow> 'a \<Rightarrow> nat" where
  "first_match rules x = length (takeWhile (\<lambda>p. \<not> p x) rules)"

definition urban_planning_rules :: "(pyfloat \<Rightarrow> bool) list" where
  "urban_planning_rules =
     map (\<lambda>t x. gt x t) [60, 54.1, 48.2, 42.3, 36.4, 30.5, 24.6, 18.7, 11]"

definition infrastructure_development_rules :: "(pyfloat \<Rightarrow> bool) list" where
  "infrastructure_development_rules =
     map (\<lambda>t x. gt x t) [10000, 8000, 6000, 4000, 2000]"

definition environmental_conservation_rules :: "(pyfloat \<Rightarrow> bool) list" where
  "environmental_conservation_rules =
     map (\<lambda>t x. gt x t) [5000, 4500, 4000, 3500, 3000, 2500, 2000, 1500, 1000, 500]"

definition socio_economics_analysis_rules :: "(pyfloat \<Rightarrow> bool) list" where
  "socio_economics_analysis_rules =
     map (\<lambda>t x. le x t) [60, 120, 180, 240, 300, 360, 420, 480, 540, 600, 660, 720, 780]"

text \<open>\<^verbatim>\<open>Series.apply(f)\<close> on a float column gives an object column of the labels.  On an
  object column the comparison of a string with a number would raise TypeError; the
  pipeline only applies the classifiers to the float columns it has just stored.\<close>

fun apply_rec :: "(pyfloat \<Rightarrow> string) \<Rightarrow> column \<Rightarrow> column result" where
  "apply_rec f (NumCol xs) = Inr (ObjCol (map (\<lambda>x. Some (f x)) xs))"
| "apply_rec f (ObjCol xs) =
     (if list_all (\<lambda>x. x = None) xs
      then Inr (ObjCol (map (\<lambda>x. Some (f NaN)) xs))
      else Inl (TypeError ''> not supported between str and int''))"

section \<open>\<^verbatim>\<open>process_files\<close>\<close>

text \<open>The population table's key column, as the source spells it: the two characters
  between \<^verbatim>\<open>or\<close> and \<^verbatim>\<open>Union\<close> are U+00C3 and U+00BF.\<close>

definition population_key :: string where
  "population_key = ''State or'' @ [char_of (195::nat), char_of (191::nat)] @ ''Union Territory''"

text \<open>The function is modelled in its three commented parts.  First the two merges.\<close>

definition merge_datasets :: "frame \<Rightarrow> frame \<Rightarrow> frame \<Rightarrow> frame result" where
  "merge_datasets gdf population_data land_data =
     bindE (merge_left gdf population_data ''statename'' population_key) (\<lambda>gdf1.
       merge_left gdf1 land_data ''statename'' ''States/UTs'')"

text \<open>The four conversions, each stored as a new column before the next one is read.\<close>

definition urban_planning :: "frame \<Rightarrow> pyfloat list result" where
  "urban_planning gdf =
     bindE (getitem gdf ''Urban pop. In %'') (\<lambda>c.
     bindE (str_accessor c) (\<lambda>s.
     bindE (astype_float (ObjCol (str_replace ''%'' '''' s))) (\<lambda>v.
       Inr (fillna 0 v))))"

definition infrastructure_development :: "frame \<Rightarrow> pyfloat list result" where
  "infrastructure_development gdf =
     bindE (getitem gdf ''Net area sown'') (\<lambda>c.
     bindE (astype_float c) (\<lambda>v.
       Inr (fillna 0 v)))"

definition environmental_conservation :: "frame \<Rightarrow> pyfloat list result" where
  "environmental_conservation gdf =
     bindE (getitem gdf ''Forests'') (\<lambda>c.
     bindE (astype_float c) (\<lambda>v.
       Inr (fillna 0 v)))"

definition socio_economics_analysis :: "frame \<Rightarrow> pyfloat list result" where
  "socio_economics_analysis gdf =
     bindE (getitem gdf ''Density'') (\<lambda>c.
     bindE (str_accessor c) (\<lambda>s.
     bindE (astype_float (ObjCol (str_replace '','' '''' s))) (\<lambda>v.
       Inr (fillna 0 v))))"

definition convert_columns :: "frame \<Rightarrow> frame result" where
  "convert_columns gdf =
     bindE (urban_planning gdf) (\<lambda>v1.
     let gdf1 = setitem gdf ''Urban Planning'' (NumCol v1) in
     bindE (infrastructure_development gdf1) (\<lambda>v2.
     let gdf2 = setitem gdf1 ''Infrastructure Development'' (NumCol v2) in
     bindE (environmental_conservation gdf2) (\<lambda>v3.
     let gdf3 = setitem gdf2 ''Environmental Conservation'' (NumCol v3) in
     bindE (socio_economics_analysis gdf3) (\<lambda>v4.
       Inr (setitem gdf3 ''Socio-Economics Analysis'' (NumCol v4))))))"

text \<open>One recommendation column: read the indicator column, apply the classifier, store
  the labels.\<close>

definition recommend :: "string \<Rightarrow> (pyfloat \<Rightarrow> string) \<Rightarrow> frame \<Rightarrow> frame result" where
  "recommend theme f gdf =
     bindE (getitem gdf theme) (\<lambda>c.
     bindE (apply_rec f c) (\<lambda>r.
       Inr (setitem gdf (theme @ '' Recommendation'') r)))"

definition assign_recommendations :: "frame \<Rightarrow> frame result" where
  "assign_recommendations gdf =
     bindE (recommend ''Urban Planning'' urban_planning_recommendation gdf) (\<lambda>gdf1.
     bindE (recommend ''Infrastructure Development''
              infrastructure_development_recommendation gdf1) (\<lambda>gdf2.
     bindE (recommend ''Environmental Conservation''
              environmental_conservation_recommendation gdf2) (\<lambda>gdf3.
       recommend ''Socio-Economics Analysis'' socio_economics_analysis_recommendation gdf3)))"

definition process_files :: "frame \<Rightarrow> frame \<Rightarrow> frame \<Rightarrow> frame result" where
  "process_files gdf population_data land_data =
     bindE (merge_datasets gdf population_data land_data) (\<lambda>gdf1.
     bindE (convert_columns gdf1) (\<lambda>gdf2.
       assign_recommendations gdf2))"







section \<open>\<^verbatim>\<open>create_map\<close>\<close>

text \<open>The folium objects the function builds, as records of the arguments it passes (the
  tooltip's \<^verbatim>\<open>fields\<close> and \<^verbatim>\<open>aliases\<close> are \<open>tooltip_fields\<close> and \<open>tooltip_aliases\<close>).  A
  feature is what folium hands to the style function: the row's properties.\<close>

type_synonym feature = "(string \<times> key) list"

record Style =
  fillColor :: string
  fillOpacity :: real
  weight :: real

record GeoJsonTooltip =
  tooltip_fields :: "string list"
  tooltip_aliases :: "string list"
  localize :: bool

record GeoJson =
  data :: frame
  name :: string
  tooltip :: GeoJsonTooltip
  style_function :: "feature \<Rightarrow> Style"

record Map =
  location :: "real \<times> real"
  zoom_start :: nat
  layers :: "GeoJson list"

definition create_map :: "frame \<Rightarrow> string \<Rightarrow> string \<Rightarrow> Map \<times> string" where
  "create_map gdf title recommendation_column =
     (let layer = \<lparr> data = gdf,
                    name = title,
                    tooltip = \<lparr> tooltip_fields = [''statename'', recommendation_column],
                                tooltip_aliases = [''State:'', ''Recommendation:''],
                                localize = True \<rparr>,
                    style_function =
                      (\<lambda>x. \<lparr> fillColor = ''blue'', fillOpacity = 0.6, weight = 0.5 \<rparr>) \<rparr>;
          m = \<lparr> location = (23.2599, 77.4126), zoom_start = 5, layers = [layer] \<rparr>;
          file_path = replace '' '' ''_'' title @ ''_Interactive_Map.html''
      in (m, file_path))"

text \<open>The themes \<^verbatim>\<open>main\<close> renders, with the column each one shows.\<close>

definition maps_info :: "(string \<times> string) list" where
  "maps_info =
     [(''Urban Planning'', ''Urban Planning Recommendation''),
      (''Infrastructure Development'', ''Infrastructure Development Recommendation''),
      (''Environmental Conservation'', ''Environmental Conservation Recommendation''),
      (''Socio-Economics Analysis'', ''Socio-Economics Analysis Recommendation'')]"

text \<open>Reading one column of the pipeline's result; the error when the pipeline failed.\<close>

definition column_of :: "frame result \<Rightarrow> string \<Rightarrow> column result" where
  "column_of r n = bindE r (\<lambda>f. getitem f n)"

section \<open>Example inputs\<close>

text \<open>The scenario of the specification: one region, one population row, one land row.
  The loader reads \<^verbatim>\<open>65%\<close> and \<^verbatim>\<open>150,5\<close> as strings and \<^verbatim>\<open>9000\<close>, \<^verbatim>\<open>3200\<close> as
  numbers.\<close>

definition alpha_gdf :: frame where
  "alpha_gdf =
     \<lparr> nrows = 1,
       cols = [(''statename'', ObjCol [Some ''Alpha'']),
               (''geometry'', ObjCol [Some ''POLYGON ((0 0, 1 0, 1 1, 0 0))''])] \<rparr>"

definition alpha_population :: frame where
  "alpha_population =
     \<lparr> nrows = 1,
       cols = [(population_key, ObjCol [Some ''Alpha'']),
               (''Urban pop. In %'', ObjCol [Some ''65%'']),
               (''Density'', ObjCol [Some ''150,5''])] \<rparr>"

definition alpha_land :: frame where
  "alpha_land =
     \<lparr> nrows = 1,
       cols = [(''States/UTs'', ObjCol [Some ''Alpha'']),
               (''Net area sown'', NumCol [Fin 9000]),
               (''Forests'', NumCol [Fin 3200])] \<rparr>"








text \<open>A population table with two rows for the same region.\<close>

definition duplicate_population :: frame where
  "duplicate_population =
     \<lparr> nrows = 2,
       cols = [(population_key, ObjCol [Some ''Alpha'', Some ''Alpha'']),
               (''Urban pop. In %'', ObjCol [Some ''65%'', Some ''70%'']),
               (''Density'', ObjCol [Some ''1,234'', Some ''300''])] \<rparr>"

text \<open>A land table without the forest column.\<close>

definition land_without_forests :: frame where
  "land_without_forests =
     \<lparr> nrows = 1,
       cols = [(''States/UTs'', ObjCol [Some ''Alpha'']),
               (''Net area sown'', NumCol [Fin 9000])] \<rparr>"

section \<open>Evaluating floats\<close>

text \<open>The binary exponent, as conditional equations.\<close>

lemma bexp_ge2: "2 \<le> a \<Longrightarrow> bexp a = bexp (a / 2) + 1"
  by (subst bexp.simps) simp

lemma bexp_lt1: "0 < a \<Longrightarrow> a < 1 \<Longrightarrow> bexp a = bexp (a * 2) - 1"
  by (subst bexp.simps) simp

lemma bexp_unit: "1 \<le> a \<Longrightarrow> a < 2 \<Longrightarrow> bexp a = 0"
  by (subst bexp.simps) simp

lemmas binary64_defs =
  binary64_def bexp_ge2 bexp_lt1 bexp_unit scale2_def round_half_even_def Let_def

lemmas float_defs =
  float_of_string_def strip_def is_space_def is_digit_def to_lower_def
  parse_decimal_def parse_exponent_def nat_of_digits_def scale10_def binary64_defs

text \<open>The values of the literals of the four chains.\<close>

lemma literal_values:
  "binary64 60 = Fin 60"
  "binary64 54.1 = Fin (7613898120023245 / 140737488355328)"
  "binary64 48.2 = Fin (3391773469363405 / 70368744177664)"
  "binary64 42.3 = Fin (2976597878715187 / 70368744177664)"
  "binary64 36.4 = Fin (5122844576133939 / 140737488355328)"
  "binary64 30.5 = Fin (61 / 2)"
  "binary64 24.6 = Fin (3462142213541069 / 140737488355328)"
  "binary64 18.7 = Fin (5263582064489267 / 281474976710656)"
  "binary64 11 = Fin 11"
  "binary64 10000 = Fin 10000"
  "binary64 8000 = Fin 8000"
  "binary64 6000 = Fin 6000"
  "binary64 4000 = Fin 4000"
  "binary64 2000 = Fin 2000"
  "binary64 5000 = Fin 5000"
  "binary64 4500 = Fin 4500"
  "binary64 3500 = Fin 3500"
  "binary64 3000 = Fin 3000"
  "binary64 2500 = Fin 2500"
  "binary64 1500 = Fin 1500"
  "binary64 1000 = Fin 1000"
  "binary64 500 = Fin 500"
  "binary64 120 = Fin 120"
  "binary64 180 = Fin 180"
  "binary64 240 = Fin 240"
  "binary64 300 = Fin 300"
  "binary64 360 = Fin 360"
  "binary64 420 = Fin 420"
  "binary64 480 = Fin 480"
  "binary64 540 = Fin 540"
  "binary64 600 = Fin 600"
  "binary64 660 = Fin 660"
  "binary64 720 = Fin 720"
  "binary64 780 = Fin 780"
  by (simp_all add: binary64_defs)

lemmas compare_defs = gt_def le_def literal_values

text \<open>Rounding at work: a decimal within half a spacing of 60 is the float 60.0, a decimal
  beyond the largest float is an infinity, one below the smallest is zero.\<close>

lemma float_of_string_rounds:
  "float_of_string ''60.000000000000001'' = Some (Fin 60)"
  "float_of_string ''1e400'' = Some PInf"
  "float_of_string ''-1e400'' = Some NInf"
  "float_of_string ''1e-400'' = Some (Fin 0)"
  "float_of_string ''9007199254740993'' = Some (Fin 9007199254740992)"
  by (simp_all add: float_defs)

section \<open>Classification\<close>

lemma urban_planning_labels_distinct: "distinct urban_planning_labels"
  by (simp add: urban_planning_labels_def)

lemma infrastructure_development_labels_distinct: "distinct infrastructure_development_labels"
  by (simp add: infrastructure_development_labels_def)

lemma environmental_conservation_labels_distinct: "distinct environmental_conservation_labels"
  by (simp add: environmental_conservation_labels_def)

lemma socio_economics_analysis_labels_distinct: "distinct socio_economics_analysis_labels"
  by (simp add: socio_economics_analysis_labels_def)

text \<open>Each chain returns the label at the position of its first matching rule.\<close>

lemma urban_planning_first_match:
  "urban_planning_recommendation x = urban_planning_labels ! first_match urban_planning_rules x
   \<and> first_match urban_planning_rules x < length urban_planning_labels"
  by (simp add: urban_planning_recommendation_def urban_planning_labels_def
      urban_planning_rules_def first_match_def)

lemma infrastructure_development_first_match:
  "infrastructure_development_recommendation x =
     infrastructure_development_labels ! first_match infrastructure_development_rules x
   \<and> first_match infrastructure_development_rules x < length infrastructure_development_labels"
  by (simp add: infrastructure_development_recommendation_def
      infrastructure_development_labels_def infrastructure_development_rules_def first_match_def)

lemma environmental_conservation_first_match:
  "environmental_conservation_recommendation x =
     environmental_conservation_labels ! first_match environmental_conservation_rules x
   \<and> first_match environmental_conservation_rules x < length environmental_conservation_labels"
  by (simp add: environmental_conservation_recommendation_def
      environmental_conservation_labels_def environmental_conservation_rules_def first_match_def)

lemma socio_economics_analysis_first_match:
  "socio_economics_analysis_recommendation x =
     socio_economics_analysis_labels ! first_match socio_economics_analysis_rules x
   \<and> first_match socio_economics_analysis_rules x < length socio_economics_analysis_labels"
  by (simp add: socio_economics_analysis_recommendation_def
      socio_economics_analysis_labels_def socio_economics_analysis_rules_def first_match_def)

lemma unique_label_index:
  assumes "distinct ls" and "k < length ls" and "l = ls ! k"
  shows "\<exists>!j. j < length ls \<and> l = ls ! j"
  using assms by (auto simp: nth_eq_iff_index_eq)

text \<open>
  Claim C5.  For each of the four indicators and every float value (infinities and NaN
  included), the chain returns exactly one label of its table: the label of the first
  rule that matches in the source's order, the last label when none does.  No value is
  left without a label and, the labels of a table being pairwise different, no value
  gets two.
\<close>

theorem classification_total:
  "(urban_planning_recommendation x =
      urban_planning_labels ! first_match urban_planning_rules x
    \<and> (\<exists>!j. j < length urban_planning_labels
            \<and> urban_planning_recommendation x = urban_planning_labels ! j))
   \<and> (infrastructure_development_recommendation x =
      infrastructure_development_labels ! first_match infrastructure_development_rules x
    \<and> (\<exists>!j. j < length infrastructure_development_labels
            \<and> infrastructure_development_recommendation x
                = infrastructure_development_labels ! j))
   \<and> (environmental_conservation_recommendation x =
      environmental_conservation_labels ! first_match environmental_conservation_rules x
    \<and> (\<exists>!j. j < length environmental_conservation_labels
            \<and> environmental_conservation_recommendation x
                = environmental_conservation_labels ! j))
   \<and> (socio_economics_analysis_recommendation x =
      socio_economics_analysis_labels ! first_match socio_economics_analysis_rules x
    \<and> (\<exists>!j. j < length socio_economics_analysis_labels
            \<and> socio_economics_analysis_recommendation x
                = socio_economics_analysis_labels ! j))"
proof (intro conjI)
  show "\<exists>!j. j < length urban_planning_labels
          \<and> urban_planning_recommendation x = urban_planning_labels ! j"
    using urban_planning_first_match [of x] unique_label_index [OF urban_planning_labels_distinct]
    by blast
  show "\<exists>!j. j < length infrastructure_development_labels
          \<and> infrastructure_development_recommendation x = infrastructure_development_labels ! j"
    using infrastructure_development_first_match [of x] unique_label_index [OF infrastructure_development_labels_distinct]
    by blast
  show "\<exists>!j. j < length environmental_conservation_labels
          \<and> environmental_conservation_recommendation x = environmental_conservation_labels ! j"
    using environmental_conservation_first_match [of x] unique_label_index [OF environmental_conservation_labels_distinct]
    by blast
  show "\<exists>!j. j < length socio_economics_analysis_labels
          \<and> socio_economics_analysis_recommendation x = socio_economics_analysis_labels ! j"
    using socio_economics_analysis_first_match [of x] unique_label_index [OF socio_economics_analysis_labels_distinct]
    by blast
  show "urban_planning_recommendation x =
      urban_planning_labels ! first_match urban_planning_rules x"
    by (simp add: urban_planning_first_match)
  show "infrastructure_development_recommendation x =
      infrastructure_development_labels ! first_match infrastructure_development_rules x"
    by (simp add: infrastructure_development_first_match)
  show "environmental_conservation_recommendation x =
      environmental_conservation_labels ! first_match environmental_conservation_rules x"
    by (simp add: environmental_conservation_first_match)
  show "socio_economics_analysis_recommendation x =
      socio_economics_analysis_labels ! first_match socio_economics_analysis_rules x"
    by (simp add: socio_economics_analysis_first_match)
qed

theorem classification_total_witness:
  "(urban_planning_recommendation (Fin 60) = urban_planning_labels ! 1
   \<and> (\<exists>!j. j < length urban_planning_labels
          \<and> urban_planning_recommendation (Fin 60) = urban_planning_labels ! j))
   \<and> (socio_economics_analysis_recommendation NaN = socio_economics_analysis_labels ! 13
   \<and> (\<exists>!j. j < length socio_economics_analysis_labels
          \<and> socio_economics_analysis_recommendation NaN = socio_economics_analysis_labels ! j))"
proof -
  have a: "first_match urban_planning_rules (Fin 60) = 1"
    by (simp add: first_match_def urban_planning_rules_def compare_defs)
  have b: "first_match socio_economics_analysis_rules NaN = 13"
    by (simp add: first_match_def socio_economics_analysis_rules_def compare_defs)
  have u: "urban_planning_recommendation (Fin 60) =
      urban_planning_labels ! first_match urban_planning_rules (Fin 60)
    \<and> (\<exists>!j. j < length urban_planning_labels
            \<and> urban_planning_recommendation (Fin 60) = urban_planning_labels ! j)"
    using classification_total [of "Fin 60"] by (rule conjunct1)
  have s: "socio_economics_analysis_recommendation NaN =
      socio_economics_analysis_labels ! first_match socio_economics_analysis_rules NaN
    \<and> (\<exists>!j. j < length socio_economics_analysis_labels
            \<and> socio_economics_analysis_recommendation NaN
                = socio_economics_analysis_labels ! j)"
    using classification_total [of NaN] by (rule conjunct2 [OF conjunct2 [OF conjunct2]])
  from u s show ?thesis unfolding a b by (rule conjI)
qed

text \<open>
  Claim C4.  The urban value 60.0 gets the second label (the rule is the strict
  \<^verbatim>\<open>> 60\<close>) and not the first, 60.0001 gets the first; the density value 60.0 gets the
  first label (\<^verbatim>\<open><= 60\<close>), 60.0001 the second.
\<close>

theorem boundary_exactness:
  "urban_planning_recommendation (Fin 60) = urban_planning_labels ! 1
   \<and> urban_planning_recommendation (Fin 60) \<noteq> urban_planning_labels ! 0
   \<and> urban_planning_recommendation (Fin 60.0001) = urban_planning_labels ! 0
   \<and> socio_economics_analysis_recommendation (Fin 60) = socio_economics_analysis_labels ! 0
   \<and> socio_economics_analysis_recommendation (Fin 60.0001)
       = socio_economics_analysis_labels ! 1"
  by (simp add: urban_planning_recommendation_def urban_planning_labels_def
      socio_economics_analysis_recommendation_def socio_economics_analysis_labels_def
      compare_defs)

section \<open>The map layer\<close>

text \<open>
  Claim C9.  Whatever the table, the theme and the column shown, the layer's style
  function gives every feature the same fill (blue, opacity 0.6, line weight 0.5), and the
  tooltip has exactly two fields, the region name and the recommendation column, with the
  aliases \<^verbatim>\<open>State:\<close> and \<^verbatim>\<open>Recommendation:\<close>.
\<close>

theorem create_map_uniform_style:
  "layers (fst (create_map gdf title recommendation_column)) = [layer]
   \<longleftrightarrow>
   layer = \<lparr> data = gdf, name = title,
             tooltip = \<lparr> tooltip_fields = [''statename'', recommendation_column],
                         tooltip_aliases = [''State:'', ''Recommendation:''],
                         localize = True \<rparr>,
             style_function =
               (\<lambda>x. \<lparr> fillColor = ''blue'', fillOpacity = 0.6, weight = 0.5 \<rparr>) \<rparr>"
  by (auto simp: create_map_def Let_def)

section \<open>Basic facts about results and tables\<close>

lemma bindE_Inl [simp]: "bindE (Inl e) f = Inl e"
  by (simp add: bindE_def)

lemma bindE_Inr [simp]: "bindE (Inr x) f = f x"
  by (simp add: bindE_def)


lemma isl_bindE: "isl m \<Longrightarrow> isl (bindE m f)"
  by (cases m) simp_all

lemma getitem_absent: "n \<notin> set (names f) \<Longrightarrow> getitem f n = Inl (KeyError n)"
proof -
  assume "n \<notin> set (names f)"
  then have "filter (\<lambda>(m, c). m = n) (cols f) = []"
    by (force simp: names_def filter_empty_conv)
  then show ?thesis by (simp add: getitem_def)
qed

lemma getitem_Inr_filter:
  "getitem f n = Inr c \<longleftrightarrow> filter (\<lambda>(m, c). m = n) (cols f) = [(n, c)]"
proof
  assume a: "getitem f n = Inr c"
  then obtain m where m: "filter (\<lambda>(m, c). m = n) (cols f) = [(m, c)]"
    by (auto simp: getitem_def split: list.splits)
  then have "(m, c) \<in> set (filter (\<lambda>(m, c). m = n) (cols f))" by simp
  then have "m = n" by auto
  with m show "filter (\<lambda>(m, c). m = n) (cols f) = [(n, c)]" by simp
next
  assume "filter (\<lambda>(m, c). m = n) (cols f) = [(n, c)]"
  then show "getitem f n = Inr c" by (simp add: getitem_def)
qed


lemma getitem_Inr_unique:
  "getitem f n = Inr c \<Longrightarrow> (n, d) \<in> set (cols f) \<Longrightarrow> d = c"
proof -
  assume "getitem f n = Inr c" and d: "(n, d) \<in> set (cols f)"
  then have "filter (\<lambda>(m, c). m = n) (cols f) = [(n, c)]"
    by (simp add: getitem_Inr_filter)
  moreover from d have "(n, d) \<in> set (filter (\<lambda>(m, c). m = n) (cols f))" by simp
  ultimately show ?thesis by simp
qed




lemma names_setitem: "set (names (setitem f n c)) = insert n (set (names f))"
  by (auto simp: setitem_def names_def split: if_splits) force+

lemma nrows_setitem [simp]: "nrows (setitem f n c) = nrows f"
  by (simp add: setitem_def)

section \<open>Running the pipeline on the examples\<close>

lemmas table_defs =
  getitem_def setitem_def names_def merge_left_def left_indexers_def positions_def
  rename_def new_dups_def bindE_def Let_def str_replace_def fillna_def population_key_def

lemmas pipeline_defs =
  process_files_def merge_datasets_def convert_columns_def urban_planning_def
  infrastructure_development_def environmental_conservation_def socio_economics_analysis_def
  assign_recommendations_def recommend_def

lemmas classifier_defs =
  urban_planning_recommendation_def infrastructure_development_recommendation_def
  environmental_conservation_recommendation_def socio_economics_analysis_recommendation_def
  compare_defs

lemma alpha_result:
  "process_files alpha_gdf alpha_population alpha_land =
     Inr \<lparr> nrows = 1,
           cols = [(''statename'', ObjCol [Some ''Alpha'']),
                   (''geometry'', ObjCol [Some ''POLYGON ((0 0, 1 0, 1 1, 0 0))'']),
                   (population_key, ObjCol [Some ''Alpha'']),
                   (''Urban pop. In %'', ObjCol [Some ''65%'']),
                   (''Density'', ObjCol [Some ''150,5'']),
                   (''States/UTs'', ObjCol [Some ''Alpha'']),
                   (''Net area sown'', NumCol [Fin 9000]),
                   (''Forests'', NumCol [Fin 3200]),
                   (''Urban Planning'', NumCol [Fin 65]),
                   (''Infrastructure Development'', NumCol [Fin 9000]),
                   (''Environmental Conservation'', NumCol [Fin 3200]),
                   (''Socio-Economics Analysis'', NumCol [Fin 1505]),
                   (''Urban Planning Recommendation'',
                      ObjCol [Some (urban_planning_labels ! 0)]),
                   (''Infrastructure Development Recommendation'',
                      ObjCol [Some (infrastructure_development_labels ! 1)]),
                   (''Environmental Conservation Recommendation'',
                      ObjCol [Some (environmental_conservation_labels ! 4)]),
                   (''Socio-Economics Analysis Recommendation'',
                      ObjCol [Some (socio_economics_analysis_labels ! 13)])] \<rparr>"
  by (simp add: pipeline_defs alpha_gdf_def alpha_population_def alpha_land_def table_defs
      float_defs classifier_defs urban_planning_labels_def infrastructure_development_labels_def
      environmental_conservation_labels_def socio_economics_analysis_labels_def)

text \<open>
  Claim C3, as stated, fails on its last part: the commas of \<^verbatim>\<open>150,5\<close> are removed before
  the conversion, so the density is 1505.0, not 0.0, and its label is the last one, not the
  first.
\<close>

theorem alpha_density_counterexample:
  "column_of (process_files alpha_gdf alpha_population alpha_land) ''Socio-Economics Analysis''
     = Inr (NumCol [Fin 1505])
   \<and> column_of (process_files alpha_gdf alpha_population alpha_land) ''Socio-Economics Analysis''
     \<noteq> Inr (NumCol [Fin 0])
   \<and> column_of (process_files alpha_gdf alpha_population alpha_land)
       ''Socio-Economics Analysis Recommendation''
     \<noteq> Inr (ObjCol [Some (socio_economics_analysis_labels ! 0)])"
  by (simp add: alpha_result column_of_def bindE_def getitem_def population_key_def
      socio_economics_analysis_labels_def)

text \<open>
  Claim C3, amended.  For the region Alpha with urban share \<^verbatim>\<open>65%\<close>, net sown area 9000,
  forest area 3200 and density \<^verbatim>\<open>150,5\<close> the pipeline gives: urban index 65.0 with the
  first urban label, infrastructure index 9000.0 with the label of the \<^verbatim>\<open>> 8000\<close> band,
  conservation index 3200.0 with the label of the \<^verbatim>\<open>> 3000\<close> band, and density 1505.0
  with the last density label (the final \<^verbatim>\<open>else\<close>).
\<close>

theorem alpha_scenario:
  "column_of (process_files alpha_gdf alpha_population alpha_land) ''Urban Planning''
     = Inr (NumCol [Fin 65])
   \<and> column_of (process_files alpha_gdf alpha_population alpha_land)
       ''Urban Planning Recommendation''
     = Inr (ObjCol [Some (urban_planning_labels ! 0)])
   \<and> column_of (process_files alpha_gdf alpha_population alpha_land)
       ''Infrastructure Development''
     = Inr (NumCol [Fin 9000])
   \<and> column_of (process_files alpha_gdf alpha_population alpha_land)
       ''Infrastructure Development Recommendation''
     = Inr (ObjCol [Some (infrastructure_development_labels ! 1)])
   \<and> column_of (process_files alpha_gdf alpha_population alpha_land)
       ''Environmental Conservation''
     = Inr (NumCol [Fin 3200])
   \<and> column_of (process_files alpha_gdf alpha_population alpha_land)
       ''Environmental Conservation Recommendation''
     = Inr (ObjCol [Some (environmental_conservation_labels ! 4)])
   \<and> column_of (process_files alpha_gdf alpha_population alpha_land)
       ''Socio-Economics Analysis''
     = Inr (NumCol [Fin 1505])
   \<and> column_of (process_files alpha_gdf alpha_population alpha_land)
       ''Socio-Economics Analysis Recommendation''
     = Inr (ObjCol [Some (socio_economics_analysis_labels ! 13)])"
  by (simp add: alpha_result column_of_def bindE_def getitem_def population_key_def)

section \<open>The conversions\<close>



lemma length_fillna [simp]: "length (fillna d vs) = length vs"
  by (simp add: fillna_def)














text \<open>The call fails with the error of the first conversion that raises.\<close>

lemma not_isl_Inr: "\<not> isl r \<Longrightarrow> \<exists>v. r = Inr v"
  by (cases r) simp_all



section \<open>Normalization of single values\<close>







section \<open>A value that does not parse\<close>





section \<open>The indicator values\<close>














end
